theory Spec2Isabelle
  imports Complex_Main "HOL-Library.Multiset"
begin

section \<open>KC3Calc.enemyFighterPower: the opponent fighter-power estimator\<close>

text \<open>
  A shallow embedding of \<^verbatim>\<open>enemyFighterPower\<close> of
  \<^verbatim>\<open>src/library/managers/CalculatorManager.js\<close> (lines 134 to 203).

  Conventions of the embedding:
  \<^item> JavaScript numbers that are IDs, stats and capacities are integers; the one
    floating-point expression, \<^verbatim>\<open>Math.floor(Math.sqrt(capacity) * aaStat)\<close>, is
    evaluated over the reals, and yields \<^verbatim>\<open>NaN\<close> for a negative capacity as the
    double arithmetic does. For a capacity \<open>c\<close> and a stat \<open>s\<close> with \<open>c * s * s\<close>
    below \<open>2 ^ 50\<close> the double result is the real one: the product is an integer
    exactly when \<open>c\<close> is a perfect square, and otherwise it is farther from every
    integer than the rounding error. Beyond that range the two can differ, and sums of
    doubles are exact only up to \<open>2 ^ 53\<close>; the theorems that depend on the value of
    the power or on the order of the additions carry these bounds as hypotheses.
  \<^item> a value that may be \<^verbatim>\<open>undefined\<close>, \<^verbatim>\<open>null\<close> or otherwise falsy where the
    code only tests its truthiness is an \<open>option\<close>, \<open>None\<close> being the falsy value.
    An array is always truthy, the empty one too.
  \<^item> the master-data service \<^verbatim>\<open>KC3Master\<close> and the configured list
    \<^verbatim>\<open>KC3GearManager.antiAirFighterType2Ids\<close> are not part of the file; they are
    the parameter \<open>M\<close> of every function.
\<close>

subsection \<open>Master data\<close>

text \<open>The fields of a ship master record and of a gear master record that the code reads.\<close>

record ship_mst =
  kc3_slots :: "int list option"
  api_maxeq :: "int list option"

record gear_mst =
  api_type :: "int list"
  api_tyku :: "int option"

record master =
  isAbyssalShip :: "int \<Rightarrow> bool"
  abyssalShip :: "int \<Rightarrow> ship_mst option"
  ship :: "int \<Rightarrow> ship_mst option"
  slotitem :: "int \<Rightarrow> gear_mst option"
  antiAirFighterType2Ids :: "int list"

subsection \<open>Values of the result\<close>

text \<open>
  \<^verbatim>\<open>totalPower\<close> starts as the boolean \<^verbatim>\<open>false\<close> and becomes a number by
  \<^verbatim>\<open>+=\<close>; the number may be \<^verbatim>\<open>NaN\<close>.
\<close>

datatype jsnum = JFalse | JNum int | JNaN

datatype gear_exc = GearNull | GearStat int | GearRecon

datatype ship_exc = ExcNull | ExcGears "int \<rightharpoonup> gear_exc"

text \<open>A property name of the exception object: the literal \<^verbatim>\<open>ship\<close>, or a ship ID.\<close>

datatype exc_key = KeyShip | KeyId int

type_synonym exc_map = "exc_key \<rightharpoonup> ship_exc"

datatype result =
  Tuple3 jsnum int exc_map
| Tuple5 jsnum int int int exc_map

datatype error = TypeError

record state =
  totalPower :: jsnum
  totalCapacity :: int
  noAirPowerCapacity :: int
  reconCapacity :: int
  exceptions :: exc_map

subsection \<open>JavaScript operators\<close>

text \<open>\<^verbatim>\<open>a || b\<close> on values whose truthiness is presence.\<close>

definition js_or :: "'a option \<Rightarrow> 'a option \<Rightarrow> 'a option" where
  "js_or a b = (case a of None \<Rightarrow> b | Some x \<Rightarrow> Some x)"

text \<open>\<^verbatim>\<open>a || []\<close>.\<close>

definition or_empty :: "'a list option \<Rightarrow> 'a list" where
  "or_empty a = (case a of None \<Rightarrow> [] | Some xs \<Rightarrow> xs)"

text \<open>\<^verbatim>\<open>xs[i]\<close> on an array: \<^verbatim>\<open>undefined\<close> out of range.\<close>

definition js_nth :: "'a list \<Rightarrow> nat \<Rightarrow> 'a option" where
  "js_nth xs i = (if i < length xs then Some (xs ! i) else None)"

text \<open>\<^verbatim>\<open>xs[i]\<close> on an array whose entries themselves may be \<^verbatim>\<open>undefined\<close>.\<close>

definition entry_at :: "'a option list \<Rightarrow> nat \<Rightarrow> 'a option" where
  "entry_at xs i = (if i < length xs then xs ! i else None)"

text \<open>\<^verbatim>\<open>ids.includes(v)\<close>, where \<open>v\<close> may be \<^verbatim>\<open>undefined\<close> and \<open>ids\<close> holds numbers.\<close>

definition js_includes :: "int list \<Rightarrow> int option \<Rightarrow> bool" where
  "js_includes ids v = (case v of None \<Rightarrow> False | Some t \<Rightarrow> t \<in> set ids)"

text \<open>\<^verbatim>\<open>Number(v)\<close> for the values \<^verbatim>\<open>totalPower\<close> takes; \<open>None\<close> is \<^verbatim>\<open>NaN\<close>.\<close>

definition to_number :: "jsnum \<Rightarrow> int option" where
  "to_number v = (case v of JFalse \<Rightarrow> Some 0 | JNum n \<Rightarrow> Some n | JNaN \<Rightarrow> None)"

text \<open>\<^verbatim>\<open>a + b\<close> where \<open>b\<close> is a number.\<close>

definition js_plus :: "jsnum \<Rightarrow> jsnum \<Rightarrow> jsnum" where
  "js_plus a b =
     (case (to_number a, to_number b) of
        (Some x, Some y) \<Rightarrow> JNum (x + y)
      | _ \<Rightarrow> JNaN)"

text \<open>\<^verbatim>\<open>Math.floor(Math.sqrt(capacity) * aaStat)\<close>.\<close>

definition floor_sqrt_times :: "int \<Rightarrow> int \<Rightarrow> jsnum" where
  "floor_sqrt_times capacity aaStat =
     (if capacity < 0 then JNaN
      else JNum \<lfloor>sqrt (real_of_int capacity) * real_of_int aaStat\<rfloor>)"

subsection \<open>Recording a gear exception\<close>

text \<open>
  The two statements
  \<^verbatim>\<open>exceptions[shipId] = exceptions[shipId] || {}; exceptions[shipId][gearId] = v;\<close>
  The first keeps an object that is already there (an object is truthy, the empty one
  too) and replaces \<^verbatim>\<open>null\<close> or a missing entry by a new empty object. The second
  writes a property of \<^verbatim>\<open>exceptions[shipId]\<close>, which throws a TypeError when that
  value is \<^verbatim>\<open>null\<close> or \<^verbatim>\<open>undefined\<close>.
\<close>

definition ensure_gears :: "exc_map \<Rightarrow> int \<Rightarrow> exc_map" where
  "ensure_gears ex shipId =
     ex(KeyId shipId \<mapsto>
        (case ex (KeyId shipId) of
           Some (ExcGears m) \<Rightarrow> ExcGears m
         | _ \<Rightarrow> ExcGears Map.empty))"

definition put_gear :: "exc_map \<Rightarrow> int \<Rightarrow> int \<Rightarrow> gear_exc \<Rightarrow> error + exc_map" where
  "put_gear ex shipId gearId v =
     (case ex (KeyId shipId) of
        Some (ExcGears m) \<Rightarrow> Inr (ex(KeyId shipId \<mapsto> ExcGears (m(gearId \<mapsto> v))))
      | _ \<Rightarrow> Inl TypeError)"

definition record_gear_exc :: "int \<Rightarrow> int \<Rightarrow> gear_exc \<Rightarrow> state \<Rightarrow> error + state" where
  "record_gear_exc shipId gearId v st =
     (case put_gear (ensure_gears (exceptions st) shipId) shipId gearId v of
        Inl e \<Rightarrow> Inl e
      | Inr ex \<Rightarrow> Inr (st\<lparr>exceptions := ex\<rparr>))"

subsection \<open>The body of the loop over the slots of one ship\<close>

text \<open>
  \<^verbatim>\<open>((enemySlotSizes || [])[shipIdx] || shipMst.api_maxeq || [])[slotIdx]\<close>: the
  capacity array is the override of the ship when it is there, else the default of the
  master record, else empty; the capacity is its element at \<open>slotIdx\<close>.
\<close>

definition slot_capacity ::
  "int list option list option \<Rightarrow> nat \<Rightarrow> ship_mst \<Rightarrow> nat \<Rightarrow> int option" where
  "slot_capacity enemySlotSizes shipIdx shipMst slotIdx =
     js_nth (or_empty (js_or (entry_at (or_empty enemySlotSizes) shipIdx) (api_maxeq shipMst)))
       slotIdx"

text \<open>\<^verbatim>\<open>KC3GearManager.antiAirFighterType2Ids.includes(gearMst.api_type[2])\<close>\<close>

definition is_fighter :: "master \<Rightarrow> gear_mst \<Rightarrow> bool" where
  "is_fighter M gearMst = js_includes (antiAirFighterType2Ids M) (js_nth (api_type gearMst) 2)"

text \<open>\<^verbatim>\<open>gearMst.api_type[1] === 7\<close>\<close>

definition is_recon :: "gear_mst \<Rightarrow> bool" where
  "is_recon gearMst = (js_nth (api_type gearMst) 1 = Some 7)"

text \<open>\<^verbatim>\<open>gearMst.api_tyku || 0\<close>\<close>

definition aa_stat :: "gear_mst \<Rightarrow> int" where
  "aa_stat gearMst = (case api_tyku gearMst of None \<Rightarrow> 0 | Some n \<Rightarrow> n)"

definition gear_body ::
  "master \<Rightarrow> int list option list option \<Rightarrow> nat \<Rightarrow> int \<Rightarrow> ship_mst \<Rightarrow> nat \<Rightarrow> int \<Rightarrow>
   state \<Rightarrow> error + state" where
  "gear_body M enemySlotSizes shipIdx shipId shipMst slotIdx gearId st =
     (case slotitem M gearId of
        None \<Rightarrow> record_gear_exc shipId gearId GearNull st
      | Some gearMst \<Rightarrow>
          if is_fighter M gearMst then
            (let aaStat = aa_stat gearMst in
             case slot_capacity enemySlotSizes shipIdx shipMst slotIdx of
               Some capacity \<Rightarrow>
                 if aaStat > 0 then
                   Inr (st\<lparr>totalCapacity := totalCapacity st + capacity,
                           totalPower := js_plus (totalPower st)
                                           (floor_sqrt_times capacity aaStat)\<rparr>)
                 else
                   Inr (st\<lparr>noAirPowerCapacity := noAirPowerCapacity st + capacity\<rparr>)
             | None \<Rightarrow> record_gear_exc shipId gearId (GearStat aaStat) st)
          else if is_recon gearMst then
            (case slot_capacity enemySlotSizes shipIdx shipMst slotIdx of
               Some capacity \<Rightarrow> Inr (st\<lparr>reconCapacity := reconCapacity st + capacity\<rparr>)
             | None \<Rightarrow> record_gear_exc shipId gearId GearRecon st)
          else Inr st)"

text \<open>
  \<^verbatim>\<open>for(let slotIdx = 0; slotIdx < shipSlots.length; slotIdx++)\<close> over the filtered
  slot array; an error of the body leaves the loop.
\<close>

function gear_loop ::
  "master \<Rightarrow> int list option list option \<Rightarrow> nat \<Rightarrow> int \<Rightarrow> ship_mst \<Rightarrow> int list \<Rightarrow> nat \<Rightarrow>
   state \<Rightarrow> error + state" where
  "gear_loop M enemySlotSizes shipIdx shipId shipMst shipSlots slotIdx st =
     (if slotIdx < length shipSlots then
        (case gear_body M enemySlotSizes shipIdx shipId shipMst slotIdx (shipSlots ! slotIdx) st of
           Inl e \<Rightarrow> Inl e
         | Inr st' \<Rightarrow> gear_loop M enemySlotSizes shipIdx shipId shipMst shipSlots (Suc slotIdx) st')
      else Inr st)"
  by pat_completeness auto
termination
  by (relation "measure (\<lambda>(M, sz, i, sid, mst, slots, slotIdx, st). length slots - slotIdx)") auto

declare gear_loop.simps [simp del]

subsection \<open>The callback of the loop over the ships\<close>

text \<open>
  \<^verbatim>\<open>KC3Master.isAbyssalShip(shipId) ? KC3Master.abyssalShip(shipId, true) : KC3Master.ship(shipId)\<close>
\<close>

definition resolve_ship :: "master \<Rightarrow> int \<Rightarrow> ship_mst option" where
  "resolve_ship M shipId =
     (if isAbyssalShip M shipId then abyssalShip M shipId else ship M shipId)"

text \<open>\<^verbatim>\<open>(enemyShipSlots || [])[shipIdx] || shipMst.kc3_slots\<close>\<close>

definition ship_slots :: "int list option list option \<Rightarrow> nat \<Rightarrow> ship_mst \<Rightarrow> int list option" where
  "ship_slots enemyShipSlots shipIdx shipMst =
     js_or (entry_at (or_empty enemyShipSlots) shipIdx) (kc3_slots shipMst)"

text \<open>
  The function passed to \<^verbatim>\<open>$.each\<close>. It returns \<^verbatim>\<open>undefined\<close> on every path, so
  \<^verbatim>\<open>$.each\<close> never stops early.
\<close>

definition ship_body ::
  "master \<Rightarrow> int list option list option \<Rightarrow> int list option list option \<Rightarrow> nat \<Rightarrow>
   int option \<Rightarrow> state \<Rightarrow> error + state" where
  "ship_body M enemyShipSlots enemySlotSizes shipIdx shipIdOpt st =
     (case shipIdOpt of
        None \<Rightarrow> Inr st
      | Some shipId \<Rightarrow>
          if shipId = 0 \<or> shipId < 0 then Inr st
          else
            (case resolve_ship M shipId of
               None \<Rightarrow> Inr (st\<lparr>exceptions := (exceptions st)(KeyId shipId \<mapsto> ExcNull)\<rparr>)
             | Some shipMst \<Rightarrow>
                 (case ship_slots enemyShipSlots shipIdx shipMst of
                    None \<Rightarrow>
                      Inr (st\<lparr>exceptions := (exceptions st)(KeyId shipId \<mapsto> ExcGears Map.empty)\<rparr>)
                  | Some shipSlots \<Rightarrow>
                      gear_loop M enemySlotSizes shipIdx shipId shipMst
                        (filter (\<lambda>id. id > 0) shipSlots) 0 st)))"

function ship_loop ::
  "master \<Rightarrow> int option list \<Rightarrow> int list option list option \<Rightarrow> int list option list option \<Rightarrow>
   nat \<Rightarrow> state \<Rightarrow> error + state" where
  "ship_loop M enemyFleetShips enemyShipSlots enemySlotSizes shipIdx st =
     (if shipIdx < length enemyFleetShips then
        (case ship_body M enemyShipSlots enemySlotSizes shipIdx (enemyFleetShips ! shipIdx) st of
           Inl e \<Rightarrow> Inl e
         | Inr st' \<Rightarrow> ship_loop M enemyFleetShips enemyShipSlots enemySlotSizes (Suc shipIdx) st')
      else Inr st)"
  by pat_completeness auto
termination
  by (relation "measure (\<lambda>(M, ships, slots, sizes, shipIdx, st). length ships - shipIdx)") auto

declare ship_loop.simps [simp del]

subsection \<open>enemyFighterPower\<close>

definition init_state :: state where
  "init_state = \<lparr>totalPower = JFalse, totalCapacity = 0, noAirPowerCapacity = 0,
                 reconCapacity = 0, exceptions = Map.empty\<rparr>"

text \<open>
  The first argument is \<open>None\<close> when \<^verbatim>\<open>enemyFleetShips\<close> is falsy, and the array of
  ship IDs otherwise; an ID is \<open>None\<close> when it is \<^verbatim>\<open>null\<close> or \<^verbatim>\<open>undefined\<close>.
\<close>

definition enemyFighterPower ::
  "master \<Rightarrow> int option list option \<Rightarrow> int list option list option \<Rightarrow>
   int list option list option \<Rightarrow> error + result" where
  "enemyFighterPower M enemyFleetShips enemyShipSlots enemySlotSizes =
     (case enemyFleetShips of
        None \<Rightarrow>
          Inr (Tuple3 (totalPower init_state) (totalCapacity init_state)
                 ((exceptions init_state)(KeyShip \<mapsto> ExcNull)))
      | Some ships \<Rightarrow>
          (case ship_loop M ships enemyShipSlots enemySlotSizes 0 init_state of
             Inl e \<Rightarrow> Inl e
           | Inr st \<Rightarrow>
               Inr (Tuple5 (totalPower st) (totalCapacity st) (noAirPowerCapacity st)
                      (reconCapacity st) (exceptions st))))"

subsection \<open>Notions used in the properties\<close>

text \<open>An ID the callback ignores: falsy, or negative.\<close>

definition placeholder :: "int option \<Rightarrow> bool" where
  "placeholder s = (case s of None \<Rightarrow> True | Some n \<Rightarrow> n = 0 \<or> n < 0)"

text \<open>
  The gear entries recorded for a ship so far: the nested object when there is one, and
  nothing when the ship has no entry or the entry \<^verbatim>\<open>null\<close>.
\<close>

definition gears_of :: "exc_map \<Rightarrow> int \<Rightarrow> (int \<rightharpoonup> gear_exc)" where
  "gears_of ex shipId = (case ex (KeyId shipId) of Some (ExcGears m) \<Rightarrow> m | _ \<Rightarrow> Map.empty)"

text \<open>
  The exception value that the loop body records for a gear, given the capacity it
  resolved for the slot: \<open>None\<close> when the body records nothing.
\<close>

definition gear_problem :: "master \<Rightarrow> int option \<Rightarrow> int \<Rightarrow> gear_exc option" where
  "gear_problem M capacity gearId =
     (case slotitem M gearId of
        None \<Rightarrow> Some GearNull
      | Some gearMst \<Rightarrow>
          if is_fighter M gearMst then
            (case capacity of None \<Rightarrow> Some (GearStat (aa_stat gearMst)) | Some c \<Rightarrow> None)
          else if is_recon gearMst then
            (case capacity of None \<Rightarrow> Some GearRecon | Some c \<Rightarrow> None)
          else None)"

text \<open>The four numeric totals of a state, and a change of them by one or more gears.\<close>

definition tot :: "state \<Rightarrow> jsnum \<times> int \<times> int \<times> int" where
  "tot st = (totalPower st, totalCapacity st, noAirPowerCapacity st, reconCapacity st)"

definition shift :: "jsnum option \<times> int \<times> int \<times> int \<Rightarrow> jsnum \<times> int \<times> int \<times> int \<Rightarrow> jsnum \<times> int \<times> int \<times> int" where
  "shift d t =
     (case (d, t) of ((dp, dc, dn, dr), (p, c, n, r)) \<Rightarrow>
        ((case dp of None \<Rightarrow> p | Some v \<Rightarrow> js_plus p v), c + dc, n + dn, r + dr))"

text \<open>The change of the totals by one pass of the slot loop body.\<close>

definition gear_shift :: "master \<Rightarrow> int option \<Rightarrow> int \<Rightarrow> jsnum option \<times> int \<times> int \<times> int" where
  "gear_shift M capacity gearId =
     (case (slotitem M gearId, capacity) of
        (Some gearMst, Some c) \<Rightarrow>
          if is_fighter M gearMst then
            (if aa_stat gearMst > 0 then (Some (floor_sqrt_times c (aa_stat gearMst)), c, 0, 0)
             else (None, 0, c, 0))
          else if is_recon gearMst then (None, 0, 0, c)
          else (None, 0, 0, 0)
      | _ \<Rightarrow> (None, 0, 0, 0))"

text \<open>
  What the callback reads at ship index \<open>i\<close>: the ship ID and the two override entries.
  \<open>run_row\<close> runs the callback on such a row, on the totals alone.
\<close>

type_synonym ship_row = "int option \<times> int list option \<times> int list option"

definition ship_row ::
  "int option list \<Rightarrow> int list option list option \<Rightarrow> int list option list option \<Rightarrow> nat \<Rightarrow> ship_row" where
  "ship_row ships slots sizes i = (ships ! i, entry_at (or_empty slots) i, entry_at (or_empty sizes) i)"

definition run_row :: "master \<Rightarrow> ship_row \<Rightarrow> jsnum \<times> int \<times> int \<times> int \<Rightarrow> jsnum \<times> int \<times> int \<times> int" where
  "run_row M row t =
     (case (row, t) of ((s, so, zo), (p, c, n, r)) \<Rightarrow>
        (case ship_body M (Some [so]) (Some [zo]) 0 s
                \<lparr>totalPower = p, totalCapacity = c, noAirPowerCapacity = n, reconCapacity = r,
                 exceptions = Map.empty\<rparr> of
           Inl e \<Rightarrow> t
         | Inr st' \<Rightarrow> tot st'))"

text \<open>
  The range in which the integer sums of the model are the sums of doubles of the code,
  whatever the order of the additions. A gear is in range when the capacity resolved
  for its slot, if any, is not negative and, with the stat of the gear, within the
  bound of the square root. A fleet is in range when all gears of all its ships are,
  and no total of the result reaches \<open>2 ^ 53\<close>: then no addition has a negative
  operand, every partial sum in every order is at most the total, and integers up to
  \<open>2 ^ 53\<close> are added exactly.
\<close>

definition gear_in_range :: "master \<Rightarrow> int option \<Rightarrow> int \<Rightarrow> bool" where
  "gear_in_range M capacity gearId =
     (case capacity of
        None \<Rightarrow> True
      | Some c \<Rightarrow>
          0 \<le> c \<and>
          (case slotitem M gearId of
             None \<Rightarrow> True
           | Some gearMst \<Rightarrow> c * aa_stat gearMst * aa_stat gearMst < 2 ^ 50))"

definition ship_in_range ::
  "master \<Rightarrow> int list option list option \<Rightarrow> int list option list option \<Rightarrow> nat \<Rightarrow>
   int option \<Rightarrow> bool" where
  "ship_in_range M slots sizes i shipIdOpt =
     (case shipIdOpt of
        None \<Rightarrow> True
      | Some shipId \<Rightarrow>
          if shipId = 0 \<or> shipId < 0 then True
          else
            (case resolve_ship M shipId of
               None \<Rightarrow> True
             | Some shipMst \<Rightarrow>
                 (case ship_slots slots i shipMst of
                    None \<Rightarrow> True
                  | Some shipSlots \<Rightarrow>
                      list_all (\<lambda>j. gear_in_range M (slot_capacity sizes i shipMst j)
                                    (filter (\<lambda>id. id > 0) shipSlots ! j))
                        [0..<length (filter (\<lambda>id. id > 0) shipSlots)])))"

definition totals_in_range :: "error + result \<Rightarrow> bool" where
  "totals_in_range res =
     (case res of
        Inr (Tuple5 pw c n r ex) \<Rightarrow>
          (case pw of JFalse \<Rightarrow> True | JNum x \<Rightarrow> x < 2 ^ 53 | JNaN \<Rightarrow> False) \<and>
          c < 2 ^ 53 \<and> n < 2 ^ 53 \<and> r < 2 ^ 53
      | _ \<Rightarrow> False)"

definition fleet_in_range ::
  "master \<Rightarrow> int option list \<Rightarrow> int list option list option \<Rightarrow> int list option list option \<Rightarrow>
   bool" where
  "fleet_in_range M ships slots sizes \<longleftrightarrow>
     list_all (\<lambda>i. ship_in_range M slots sizes i (ships ! i)) [0..<length ships] \<and>
     totals_in_range (enemyFighterPower M (Some ships) slots sizes)"

text \<open>
  Reordering the fleet by a list \<open>p\<close> of indices: position \<open>k\<close> of the new arrays
  holds what was at position \<open>p ! k\<close>, an override array being read as JavaScript reads
  it (\<^verbatim>\<open>undefined\<close> beyond its end). An absent override array stays absent.
\<close>

definition permute_ships :: "nat list \<Rightarrow> int option list \<Rightarrow> int option list" where
  "permute_ships p ships = map (\<lambda>k. ships ! k) p"

definition permute_overrides :: "nat list \<Rightarrow> int list option list option \<Rightarrow> int list option list option" where
  "permute_overrides p overrides = map_option (\<lambda>xs. map (entry_at xs) p) overrides"

subsection \<open>A small master database for concrete runs\<close>

text \<open>
  Ship 1501 is an abyssal ship with two default slots of capacity 4 and 9; ship 7 is a
  normal ship without slot layout and without capacities; ship 8 is a normal ship with
  one default slot and no capacities. Gear 19 is a fighter (type 6) with anti-air 10,
  gear 20 a fighter without anti-air, gear 54 a reconnaissance plane (category 7, type
  9), gear 1 a gun; gear 99 is both of a fighter type and of the reconnaissance
  category. Every other ID is unknown.
\<close>

definition demo_master :: master where
  "demo_master =
     \<lparr>isAbyssalShip = (\<lambda>id. id > 1500),
      abyssalShip = (\<lambda>id. if id = 1501
                         then Some \<lparr>kc3_slots = Some [19, 54], api_maxeq = Some [4, 9]\<rparr>
                         else None),
      ship = (\<lambda>id. if id = 7 then Some \<lparr>kc3_slots = None, api_maxeq = None\<rparr>
                  else if id = 8 then Some \<lparr>kc3_slots = Some [19], api_maxeq = None\<rparr>
                  else None),
      slotitem = (\<lambda>id. if id = 19 then Some \<lparr>api_type = [3, 5, 6, 6, 0], api_tyku = Some 10\<rparr>
                      else if id = 20 then Some \<lparr>api_type = [3, 5, 6, 6, 0], api_tyku = None\<rparr>
                      else if id = 54 then Some \<lparr>api_type = [5, 7, 9, 9, 0], api_tyku = Some 0\<rparr>
                      else if id = 1 then Some \<lparr>api_type = [1, 1, 1, 1, 0], api_tyku = None\<rparr>
                      else if id = 99 then Some \<lparr>api_type = [5, 7, 6, 6, 0], api_tyku = Some 3\<rparr>
                      else None),
      antiAirFighterType2Ids = [6, 7, 8, 11, 45, 56, 57, 58]\<rparr>"

section \<open>Properties\<close>

subsection \<open>Unfolding the loops\<close>

lemma ship_loop_end:
  "length ships \<le> i \<Longrightarrow> ship_loop M ships slots sizes i st = Inr st"
  by (subst ship_loop.simps) simp

lemma ship_loop_step:
  "i < length ships \<Longrightarrow>
   ship_loop M ships slots sizes i st =
     (case ship_body M slots sizes i (ships ! i) st of
        Inl e \<Rightarrow> Inl e
      | Inr st' \<Rightarrow> ship_loop M ships slots sizes (Suc i) st')"
  by (subst ship_loop.simps) simp

lemma gear_loop_end:
  "length gs \<le> j \<Longrightarrow> gear_loop M sizes i sid mst gs j st = Inr st"
  by (subst gear_loop.simps) simp

lemma gear_loop_step:
  "j < length gs \<Longrightarrow>
   gear_loop M sizes i sid mst gs j st =
     (case gear_body M sizes i sid mst j (gs ! j) st of
        Inl e \<Rightarrow> Inl e
      | Inr st' \<Rightarrow> gear_loop M sizes i sid mst gs (Suc j) st')"
  by (subst gear_loop.simps) simp

subsection \<open>Placeholder ship IDs\<close>

lemma ship_body_placeholder:
  "placeholder s \<Longrightarrow> ship_body M slots sizes i s st = Inr st"
  by (auto simp: placeholder_def ship_body_def split: option.splits)

lemma ship_loop_placeholders:
  "list_all placeholder ships \<Longrightarrow> ship_loop M ships slots sizes i st = Inr st"
proof (induction "length ships - i" arbitrary: i)
  case 0
  then show ?case by (simp add: ship_loop_end)
next
  case (Suc k)
  then have lt: "i < length ships" by simp
  with Suc.prems have "placeholder (ships ! i)" by (simp add: list_all_length)
  moreover from Suc.hyps have "k = length ships - Suc i" by simp
  ultimately show ?case
    using Suc.hyps(1) [of "Suc i"] Suc.prems lt
    by (simp add: ship_loop_step ship_body_placeholder)
qed

text \<open>
  C2, as amended. When \<^verbatim>\<open>enemyFleetShips\<close> is absent (falsy) the result is the
  3-element array \<^verbatim>\<open>[false, 0, {ship: null}]\<close>. The empty array is truthy and takes
  the other path: the result is the 5-element array \<^verbatim>\<open>[false, 0, 0, 0, {}]\<close>.
\<close>

theorem absent_fleet_short_result:
  "enemyFighterPower M None slots sizes = Inr (Tuple3 JFalse 0 [KeyShip \<mapsto> ExcNull]) \<and>
   enemyFighterPower M (Some []) slots sizes = Inr (Tuple5 JFalse 0 0 0 Map.empty)"
  by (simp add: enemyFighterPower_def init_state_def ship_loop_end)

text \<open>
  C2 as stated fails for the empty array: the result is not the 3-element one.
\<close>

theorem empty_fleet_not_short:
  "enemyFighterPower demo_master (Some []) None None
     \<noteq> Inr (Tuple3 JFalse 0 [KeyShip \<mapsto> ExcNull])"
  by (simp add: enemyFighterPower_def init_state_def ship_loop_end)

text \<open>
  C1, as amended. For a non-empty array of placeholder IDs only, the result is the
  5-element array \<^verbatim>\<open>[false, 0, 0, 0, {}]\<close>: \<^verbatim>\<open>totalPower\<close> is still the boolean
  \<^verbatim>\<open>false\<close> it was initialised with, since nothing was added to it.
\<close>

theorem placeholder_fleet_result:
  "ships \<noteq> [] \<Longrightarrow> list_all placeholder ships \<Longrightarrow>
   enemyFighterPower M (Some ships) slots sizes = Inr (Tuple5 JFalse 0 0 0 Map.empty)"
  by (simp add: enemyFighterPower_def init_state_def ship_loop_placeholders)

theorem placeholder_fleet_result_witness:
  "[Some (- 1), None, Some 0] \<noteq> [] \<and> list_all placeholder [Some (- 1), None, Some 0] \<and>
   enemyFighterPower demo_master (Some [Some (- 1), None, Some 0]) None None
     = Inr (Tuple5 JFalse 0 0 0 Map.empty)"
  using placeholder_fleet_result [of "[Some (- 1), None, Some 0]" demo_master None None]
  by (simp add: placeholder_def)

text \<open>
  C1 as stated fails: for the fleet \<^verbatim>\<open>[-1]\<close> the first element of the result is
  \<^verbatim>\<open>false\<close>, not the number 0.
\<close>

theorem placeholder_fleet_power_not_zero:
  "enemyFighterPower demo_master (Some [Some (- 1)]) None None
     \<noteq> Inr (Tuple5 (JNum 0) 0 0 0 Map.empty)"
  by (simp add: enemyFighterPower_def init_state_def ship_loop_placeholders placeholder_def)

subsection \<open>The effect of the loop bodies\<close>

lemma record_gear_exc_eq:
  "record_gear_exc sid g v st =
     Inr (st\<lparr>exceptions := (exceptions st)(KeyId sid \<mapsto> ExcGears ((gears_of (exceptions st) sid)(g \<mapsto> v)))\<rparr>)"
  by (simp add: record_gear_exc_def put_gear_def ensure_gears_def gears_of_def
           split: option.splits ship_exc.splits)

lemma js_plus_assoc: "js_plus (js_plus p v) w = js_plus p (js_plus v w)"
  by (simp add: js_plus_def to_number_def split: jsnum.splits)

lemma js_plus_swap: "js_plus (js_plus p v) w = js_plus (js_plus p w) v"
  by (simp add: js_plus_def to_number_def split: jsnum.splits)

lemma shift_shift: "\<exists>d. \<forall>t. shift d2 (shift d1 t) = shift d t"
proof -
  obtain p1 c1 n1 r1 p2 c2 n2 r2 where d: "d1 = (p1, c1, n1, r1)" "d2 = (p2, c2, n2, r2)"
    by (metis prod_cases4)
  let ?p = "case p1 of None \<Rightarrow> p2 | Some v \<Rightarrow> (case p2 of None \<Rightarrow> Some v | Some w \<Rightarrow> Some (js_plus v w))"
  have "\<forall>t. shift d2 (shift d1 t) = shift (?p, c1 + c2, n1 + n2, r1 + r2) t"
    by (auto simp: d shift_def js_plus_assoc split: option.splits prod.splits)
  then show ?thesis by blast
qed

lemma shift_commute: "shift d1 (shift d2 t) = shift d2 (shift d1 t)"
  by (auto simp: shift_def js_plus_swap split: option.splits prod.splits)

lemma shift_id: "shift (None, 0, 0, 0) t = t"
  by (simp add: shift_def split: prod.splits)

lemma gear_body_tot:
  "\<exists>st'. gear_body M sizes i sid mst j g st = Inr st' \<and>
     tot st' = shift (gear_shift M (slot_capacity sizes i mst j) g) (tot st) \<and>
     exceptions st' =
       (case gear_problem M (slot_capacity sizes i mst j) g of
          None \<Rightarrow> exceptions st
        | Some v \<Rightarrow> (exceptions st)(KeyId sid \<mapsto> ExcGears ((gears_of (exceptions st) sid)(g \<mapsto> v))))"
  by (auto simp: gear_body_def gear_shift_def gear_problem_def record_gear_exc_eq tot_def shift_def Let_def
           split: option.splits)


lemma gear_body_cong:
  "entry_at (or_empty sizes) i = entry_at (or_empty sizes') i' \<Longrightarrow>
   gear_body M sizes i sid mst j g st = gear_body M sizes' i' sid mst j g st"
proof -
  assume "entry_at (or_empty sizes) i = entry_at (or_empty sizes') i'"
  then have eq: "slot_capacity sizes i mst j = slot_capacity sizes' i' mst j"
    by (simp add: slot_capacity_def)
  show ?thesis
    unfolding gear_body_def eq by (rule refl)
qed

lemma gear_loop_cong:
  "entry_at (or_empty sizes) i = entry_at (or_empty sizes') i' \<Longrightarrow>
   gear_loop M sizes i sid mst gs j st = gear_loop M sizes' i' sid mst gs j st"
proof (induction "length gs - j" arbitrary: j st)
  case 0
  then show ?case by (simp add: gear_loop_end)
next
  case (Suc k)
  then have lt: "j < length gs" and k: "k = length gs - Suc j" by simp_all
  show ?case
    using Suc.hyps(1) [OF k Suc.prems] gear_body_cong [OF Suc.prems] lt
    by (simp add: gear_loop_step split: sum.splits)
qed

lemma gear_loop_tot:
  "\<exists>d. \<forall>st. \<exists>st'. gear_loop M sizes i sid mst gs j st = Inr st' \<and> tot st' = shift d (tot st)"
proof (induction "length gs - j" arbitrary: j)
  case 0
  then have "\<forall>st. \<exists>st'. gear_loop M sizes i sid mst gs j st = Inr st' \<and>
               tot st' = shift (None, 0, 0, 0) (tot st)"
    by (simp add: gear_loop_end shift_id)
  then show ?case by blast
next
  case (Suc k)
  then have lt: "j < length gs" and k: "k = length gs - Suc j" by simp_all
  from Suc.hyps(1) [OF k] obtain d2 where
    d2: "\<And>st. \<exists>st'. gear_loop M sizes i sid mst gs (Suc j) st = Inr st' \<and> tot st' = shift d2 (tot st)"
    by blast
  let ?d1 = "gear_shift M (slot_capacity sizes i mst j) (gs ! j)"
  obtain d where d: "\<And>t. shift d2 (shift ?d1 t) = shift d t"
    using shift_shift by blast
  have "\<exists>st'. gear_loop M sizes i sid mst gs j st = Inr st' \<and> tot st' = shift d (tot st)" for st
  proof -
    obtain st1 where st1: "gear_body M sizes i sid mst j (gs ! j) st = Inr st1"
        "tot st1 = shift ?d1 (tot st)"
      using gear_body_tot by blast
    with d2 [of st1] show ?thesis
      by (auto simp: gear_loop_step lt d)
  qed
  then show ?case by blast
qed

lemma ship_body_tot:
  "\<exists>d. \<forall>st. \<exists>st'. ship_body M slots sizes i s st = Inr st' \<and> tot st' = shift d (tot st)"
proof -
  have triv: "\<exists>d. \<forall>st. \<exists>st'. Inr (f st) = Inr st' \<and> tot st' = shift d (tot st)"
    if "\<And>st. tot (f st) = tot st" for f :: "state \<Rightarrow> state"
    using that shift_id by (intro exI [of _ "(None, 0, 0, 0)"]) simp
  show ?thesis
  proof (cases s)
    case None
    then show ?thesis using triv [of "\<lambda>st. st"] by (simp add: ship_body_def)
  next
    case (Some sid)
    show ?thesis
    proof (cases "sid = 0 \<or> sid < 0")
      case True
      then show ?thesis using triv [of "\<lambda>st. st"] by (simp add: ship_body_def Some)
    next
      case False
      show ?thesis
      proof (cases "resolve_ship M sid")
        case None
        then show ?thesis
          using triv [of "\<lambda>st. st\<lparr>exceptions := (exceptions st)(KeyId sid \<mapsto> ExcNull)\<rparr>"] False
          by (simp add: ship_body_def Some tot_def)
      next
        case (Some mst)
        note mst = this
        show ?thesis
        proof (cases "ship_slots slots i mst")
          case None
          then show ?thesis
            using triv [of "\<lambda>st. st\<lparr>exceptions := (exceptions st)(KeyId sid \<mapsto> ExcGears Map.empty)\<rparr>"]
              False
            by (simp add: ship_body_def \<open>s = Some sid\<close> mst tot_def)
        next
          case (Some gs)
          then show ?thesis
            using gear_loop_tot [of M sizes i sid mst "filter (\<lambda>id. id > 0) gs" 0] False
            by (simp add: ship_body_def \<open>s = Some sid\<close> mst)
        qed
      qed
    qed
  qed
qed

lemma entry_at_single: "entry_at (or_empty (Some [x])) 0 = x"
  by (simp add: entry_at_def or_empty_def)

lemma ship_body_row:
  "ship_body M slots sizes i s st =
   ship_body M (Some [entry_at (or_empty slots) i]) (Some [entry_at (or_empty sizes) i]) 0 s st"
proof -
  have "gear_loop M sizes i sid mst gs 0 st =
        gear_loop M (Some [entry_at (or_empty sizes) i]) 0 sid mst gs 0 st" for sid mst gs
    by (rule gear_loop_cong) (simp add: entry_at_single)
  then show ?thesis
    by (simp add: ship_body_def ship_slots_def entry_at_single split: option.splits)
qed

lemma run_row_shift: "\<exists>d. \<forall>t. run_row M row t = shift d t"
proof -
  obtain s so zo where row: "row = (s, so, zo)" by (metis prod_cases3)
  obtain d where d: "\<And>st. \<exists>st'. ship_body M (Some [so]) (Some [zo]) 0 s st = Inr st' \<and>
      tot st' = shift d (tot st)"
    using ship_body_tot by blast
  have "run_row M row t = shift d t" for t
  proof -
    obtain p c n r where t: "t = (p, c, n, r)" by (metis prod_cases4)
    let ?st = "\<lparr>totalPower = p, totalCapacity = c, noAirPowerCapacity = n, reconCapacity = r,
                 exceptions = Map.empty\<rparr>"
    from d [of ?st] show ?thesis
      by (auto simp: run_row_def row t tot_def)
  qed
  then show ?thesis by blast
qed

lemma run_row_commute: "run_row M r1 \<circ> run_row M r2 = run_row M r2 \<circ> run_row M r1"
proof -
  obtain d1 d2 where "\<And>t. run_row M r1 t = shift d1 t" "\<And>t. run_row M r2 t = shift d2 t"
    using run_row_shift by metis
  then show ?thesis by (simp add: fun_eq_iff shift_commute)
qed

lemma ship_body_run_row:
  "\<exists>st'. ship_body M slots sizes i (ships ! i) st = Inr st' \<and>
         tot st' = run_row M (ship_row ships slots sizes i) (tot st)"
proof -
  let ?so = "entry_at (or_empty slots) i" and ?zo = "entry_at (or_empty sizes) i"
  obtain d where d: "\<And>st. \<exists>st'. ship_body M (Some [?so]) (Some [?zo]) 0 (ships ! i) st = Inr st' \<and>
      tot st' = shift d (tot st)"
    using ship_body_tot by blast
  obtain p c n r where t: "tot st = (p, c, n, r)" by (metis prod_cases4)
  let ?st0 = "\<lparr>totalPower = p, totalCapacity = c, noAirPowerCapacity = n, reconCapacity = r,
                 exceptions = Map.empty\<rparr>"
  have "tot ?st0 = tot st" using t by (simp add: tot_def)
  with d [of ?st0] d [of st] show ?thesis
    by (subst ship_body_row) (auto simp: run_row_def ship_row_def t)
qed

lemma ship_loop_tot:
  "\<exists>st'. ship_loop M ships slots sizes i st = Inr st' \<and>
         tot st' = fold (run_row M) (map (ship_row ships slots sizes) [i..<length ships]) (tot st)"
proof (induction "length ships - i" arbitrary: i st)
  case 0
  then show ?case by (simp add: ship_loop_end)
next
  case (Suc k)
  then have lt: "i < length ships" and k: "k = length ships - Suc i" by simp_all
  obtain st1 where st1: "ship_body M slots sizes i (ships ! i) st = Inr st1"
      "tot st1 = run_row M (ship_row ships slots sizes i) (tot st)"
    using ship_body_run_row by blast
  from Suc.hyps(1) [OF k, of st1] show ?case
    using lt st1 by (simp add: ship_loop_step upt_conv_Cons)
qed


lemma ship_row_permuted:
  assumes "k < length p"
  shows "ship_row (permute_ships p ships) (permute_overrides p slots) (permute_overrides p sizes) k
         = ship_row ships slots sizes (p ! k)"
proof -
  have "entry_at (or_empty (permute_overrides p ov)) k = entry_at (or_empty ov) (p ! k)" for ov
    using assms by (cases ov) (simp_all add: permute_overrides_def or_empty_def entry_at_def)
  then show ?thesis
    using assms by (simp add: ship_row_def permute_ships_def)
qed

lemma enemyFighterPower_tot:
  "\<exists>pw c n r ex. enemyFighterPower M (Some ships) slots sizes = Inr (Tuple5 pw c n r ex) \<and>
     (pw, c, n, r) = fold (run_row M) (map (ship_row ships slots sizes) [0..<length ships])
                       (tot init_state)"
proof -
  obtain st where "ship_loop M ships slots sizes 0 init_state = Inr st"
    "tot st = fold (run_row M) (map (ship_row ships slots sizes) [0..<length ships]) (tot init_state)"
    using ship_loop_tot by blast
  then show ?thesis
    by (simp add: enemyFighterPower_def tot_def)
qed

subsection \<open>Evaluation on concrete inputs\<close>

lemma floor_sqrt_times_eq:
  assumes "0 \<le> c" "0 \<le> s" "0 \<le> n" "n * n \<le> c * s * s" "c * s * s < (n + 1) * (n + 1)"
  shows "floor_sqrt_times c s = JNum n"
proof -
  let ?x = "sqrt (real_of_int c) * real_of_int s"
  have x: "?x = sqrt (real_of_int (c * s * s))"
    using assms(2) by (simp add: real_sqrt_mult mult.assoc)
  have "real_of_int n * real_of_int n \<le> real_of_int (c * s * s)"
    using assms(4) by (metis of_int_le_iff of_int_mult)
  then have lo: "real_of_int n \<le> ?x"
    unfolding x using assms(3) by (intro real_le_rsqrt) (simp add: power2_eq_square)
  have "real_of_int (c * s * s) < real_of_int ((n + 1) * (n + 1))"
    using assms(5) by (metis of_int_less_iff)
  then have hi: "?x < real_of_int n + 1"
    unfolding x using assms(3) by (intro real_less_lsqrt) (simp_all add: power2_eq_square)
  from lo hi have "\<lfloor>?x\<rfloor> = n" by (simp add: floor_unique)
  with assms(1) show ?thesis by (simp add: floor_sqrt_times_def)
qed

lemmas loop_eval = ship_loop.simps gear_loop.simps ship_body_def gear_body_def
  enemyFighterPower_def init_state_def resolve_ship_def ship_slots_def slot_capacity_def
  js_or_def or_empty_def js_nth_def entry_at_def js_includes_def is_fighter_def is_recon_def
  aa_stat_def js_plus_def to_number_def record_gear_exc_def put_gear_def ensure_gears_def
  demo_master_def

subsection \<open>One gear\<close>




text \<open>
  C6. A gear of an anti-air-fighter type whose slot has a capacity and whose anti-air
  stat is zero or absent adds the capacity to \<^verbatim>\<open>noAirPowerCapacity\<close> and leaves
  \<^verbatim>\<open>totalPower\<close>, \<^verbatim>\<open>totalCapacity\<close>, \<^verbatim>\<open>reconCapacity\<close> and the exception map as
  they are.
\<close>

theorem no_air_power_gear:
  assumes "slotitem M gearId = Some gearMst" and "is_fighter M gearMst"
    and "slot_capacity enemySlotSizes shipIdx shipMst slotIdx = Some c"
    and "api_tyku gearMst = None \<or> api_tyku gearMst = Some 0"
  shows "gear_body M enemySlotSizes shipIdx shipId shipMst slotIdx gearId st =
    Inr (st\<lparr>noAirPowerCapacity := noAirPowerCapacity st + c\<rparr>)"
  using assms by (auto simp: gear_body_def aa_stat_def)

theorem no_air_power_gear_witness:
  "slotitem demo_master 20 = Some \<lparr>api_type = [3, 5, 6, 6, 0], api_tyku = None\<rparr> \<and>
   is_fighter demo_master \<lparr>api_type = [3, 5, 6, 6, 0], api_tyku = None\<rparr> \<and>
   slot_capacity (Some [Some [5]]) 0 \<lparr>kc3_slots = Some [19], api_maxeq = None\<rparr> 0 = Some 5 \<and>
   gear_body demo_master (Some [Some [5]]) 0 8 \<lparr>kc3_slots = Some [19], api_maxeq = None\<rparr> 0 20
     init_state
   = Inr \<lparr>totalPower = JFalse, totalCapacity = 0, noAirPowerCapacity = 5, reconCapacity = 0,
          exceptions = Map.empty\<rparr> \<and>
   enemyFighterPower demo_master (Some [Some 8]) (Some [Some [20]]) (Some [Some [5]])
   = Inr (Tuple5 JFalse 0 5 0 Map.empty)"
proof -
  let ?gm = "\<lparr>api_type = [3, 5, 6, 6, 0], api_tyku = None\<rparr>"
  let ?sm = "\<lparr>kc3_slots = Some [19], api_maxeq = None\<rparr>"
  have a: "slotitem demo_master 20 = Some ?gm" by (simp add: demo_master_def)
  have b: "is_fighter demo_master ?gm"
    by (simp add: is_fighter_def demo_master_def js_includes_def js_nth_def)
  have c: "slot_capacity (Some [Some [5]]) 0 ?sm 0 = Some 5"
    by (simp add: slot_capacity_def or_empty_def entry_at_def js_or_def js_nth_def)
  have d: "api_tyku ?gm = None \<or> api_tyku ?gm = Some 0" by simp
  have e: "enemyFighterPower demo_master (Some [Some 8]) (Some [Some [20]]) (Some [Some [5]])
      = Inr (Tuple5 JFalse 0 5 0 Map.empty)"
    by (simp add: loop_eval)
  from no_air_power_gear [OF a b c d, of 8 init_state] a b c e
  show ?thesis
    by (simp add: init_state_def)
qed


text \<open>
  C10. A gear that is of an anti-air-fighter type and of the reconnaissance category at
  once is handled by the anti-air branch alone: the body does what it does for a
  fighter, \<^verbatim>\<open>reconCapacity\<close> stays as it is, and the only exception entry the body may
  write for the gear is its anti-air stat, never the \<^verbatim>\<open>recon\<close> marker.
\<close>

theorem fighter_precedes_recon:
  assumes "slotitem M gearId = Some gearMst" and "is_fighter M gearMst" and "is_recon gearMst"
  shows "gear_body M enemySlotSizes shipIdx shipId shipMst slotIdx gearId st =
      (case slot_capacity enemySlotSizes shipIdx shipMst slotIdx of
         Some c \<Rightarrow>
           if 0 < aa_stat gearMst then
             Inr (st\<lparr>totalCapacity := totalCapacity st + c,
                     totalPower := js_plus (totalPower st) (floor_sqrt_times c (aa_stat gearMst))\<rparr>)
           else Inr (st\<lparr>noAirPowerCapacity := noAirPowerCapacity st + c\<rparr>)
       | None \<Rightarrow>
           Inr (st\<lparr>exceptions := (exceptions st)(KeyId shipId \<mapsto>
                  ExcGears ((gears_of (exceptions st) shipId)(gearId \<mapsto> GearStat (aa_stat gearMst))))\<rparr>))
    \<and> (\<exists>st'. gear_body M enemySlotSizes shipIdx shipId shipMst slotIdx gearId st = Inr st' \<and>
           reconCapacity st' = reconCapacity st \<and>
           (exceptions st' = exceptions st \<or>
            gears_of (exceptions st') shipId gearId = Some (GearStat (aa_stat gearMst))))"
  using assms
  by (auto simp: gear_body_def record_gear_exc_eq gears_of_def Let_def split: option.splits)

theorem fighter_precedes_recon_witness:
  "slotitem demo_master 99 = Some \<lparr>api_type = [5, 7, 6, 6, 0], api_tyku = Some 3\<rparr> \<and>
   is_fighter demo_master \<lparr>api_type = [5, 7, 6, 6, 0], api_tyku = Some 3\<rparr> \<and>
   is_recon \<lparr>api_type = [5, 7, 6, 6, 0], api_tyku = Some 3\<rparr> \<and>
   gear_body demo_master None 0 8 \<lparr>kc3_slots = Some [19], api_maxeq = None\<rparr> 0 99 init_state
   = Inr \<lparr>totalPower = JFalse, totalCapacity = 0, noAirPowerCapacity = 0, reconCapacity = 0,
          exceptions = [KeyId 8 \<mapsto> ExcGears [99 \<mapsto> GearStat 3]]\<rparr>"
proof -
  let ?gm = "\<lparr>api_type = [5, 7, 6, 6, 0], api_tyku = Some 3\<rparr>"
  have a: "slotitem demo_master 99 = Some ?gm" by (simp add: demo_master_def)
  have b: "is_fighter demo_master ?gm"
    by (simp add: is_fighter_def demo_master_def js_includes_def js_nth_def)
  have c: "is_recon ?gm" by (simp add: is_recon_def js_nth_def)
  from fighter_precedes_recon [OF a b c, of None 0 8 "\<lparr>kc3_slots = Some [19], api_maxeq = None\<rparr>"
      0 init_state] a b c
  show ?thesis
    by (simp add: init_state_def slot_capacity_def or_empty_def entry_at_def js_or_def js_nth_def
          aa_stat_def gears_of_def)
qed

text \<open>
  C4, as amended. The capacity array is chosen as a whole: the override array of the
  ship when it is present, the default array of the ship master only when the override
  array of the ship is absent. So when the override array is present and has no entry at
  the slot index, the capacity of a fighter or reconnaissance gear is unresolved,
  whatever the default is, and the body records the missing capacity (the stat for a
  fighter, the \<^verbatim>\<open>recon\<close> marker otherwise).
\<close>

theorem capacity_array_chosen_whole:
  assumes "slotitem M gearId = Some gearMst" and "is_fighter M gearMst \<or> is_recon gearMst"
  shows "(entry_at (or_empty enemySlotSizes) shipIdx = Some ov \<and> length ov \<le> slotIdx \<longrightarrow>
            gear_body M enemySlotSizes shipIdx shipId shipMst slotIdx gearId st =
              Inr (st\<lparr>exceptions := (exceptions st)(KeyId shipId \<mapsto>
                     ExcGears ((gears_of (exceptions st) shipId)
                       (gearId \<mapsto> (if is_fighter M gearMst then GearStat (aa_stat gearMst)
                                    else GearRecon))))\<rparr>))
       \<and> (entry_at (or_empty enemySlotSizes) shipIdx = Some ov \<longrightarrow>
            slot_capacity enemySlotSizes shipIdx shipMst slotIdx = js_nth ov slotIdx)
       \<and> (entry_at (or_empty enemySlotSizes) shipIdx = None \<longrightarrow>
            slot_capacity enemySlotSizes shipIdx shipMst slotIdx =
              js_nth (or_empty (api_maxeq shipMst)) slotIdx)"
  using assms
  by (auto simp: gear_body_def record_gear_exc_eq slot_capacity_def js_or_def js_nth_def
        or_empty_def Let_def split: option.splits)

theorem capacity_array_chosen_whole_witness:
  "slotitem demo_master 54 = Some \<lparr>api_type = [5, 7, 9, 9, 0], api_tyku = Some 0\<rparr> \<and>
   is_recon \<lparr>api_type = [5, 7, 9, 9, 0], api_tyku = Some 0\<rparr> \<and>
   entry_at (or_empty (Some [Some [16 :: int]])) 0 = Some [16] \<and> length [16 :: int] \<le> 1 \<and>
   gear_body demo_master (Some [Some [16]]) 0 1501
     \<lparr>kc3_slots = Some [19, 54], api_maxeq = Some [4, 9]\<rparr> 1 54 init_state
   = Inr \<lparr>totalPower = JFalse, totalCapacity = 0, noAirPowerCapacity = 0, reconCapacity = 0,
          exceptions = [KeyId 1501 \<mapsto> ExcGears [54 \<mapsto> GearRecon]]\<rparr> \<and>
   entry_at (or_empty (None :: int list option list option)) 0 = None \<and>
   slot_capacity None 0 \<lparr>kc3_slots = Some [19, 54], api_maxeq = Some [4, 9]\<rparr> 1 = Some 9"
proof -
  let ?gm = "\<lparr>api_type = [5, 7, 9, 9, 0], api_tyku = Some 0\<rparr>"
  let ?sm = "\<lparr>kc3_slots = Some [19, 54], api_maxeq = Some [4, 9]\<rparr>"
  have a: "slotitem demo_master 54 = Some ?gm" by (simp add: demo_master_def)
  have c: "is_recon ?gm" by (simp add: is_recon_def js_nth_def)
  have nf: "\<not> is_fighter demo_master ?gm"
    by (simp add: is_fighter_def demo_master_def js_includes_def js_nth_def)
  have b: "is_fighter demo_master ?gm \<or> is_recon ?gm" using c by simp
  have e1: "entry_at (or_empty (Some [Some [16 :: int]])) 0 = Some [16]"
    by (simp add: entry_at_def or_empty_def)
  have e2: "entry_at (or_empty (None :: int list option list option)) 0 = None"
    by (simp add: entry_at_def or_empty_def)
  from capacity_array_chosen_whole [OF a b, of "Some [Some [16]]" 0 "[16]" 1 1501 ?sm init_state]
    capacity_array_chosen_whole [OF a b, of None 0 "[]" 1 1501 ?sm init_state]
    a c nf e1 e2
  show ?thesis
    by (simp add: init_state_def gears_of_def or_empty_def js_nth_def)
qed

text \<open>
  C4 as stated fails: ship 1501 has the default capacities 4 and 9, the override array
  \<^verbatim>\<open>[16]\<close> has no entry for its second slot, and the reconnaissance plane in that slot
  is recorded as an exception instead of counting with the default capacity 9.
\<close>

theorem default_capacity_not_used:
  "enemyFighterPower demo_master (Some [Some 1501]) None (Some [Some [16]])
   = Inr (Tuple5 (JNum 40) 16 0 0 [KeyId 1501 \<mapsto> ExcGears [54 \<mapsto> GearRecon]])"
  by (simp add: loop_eval floor_sqrt_times_eq [of 16 10 40])

text \<open>
  C3, evaluated where the code departs from it. The slot array \<^verbatim>\<open>[-1, 19]\<close> has a
  placeholder before the fighter 19, and the capacities are \<^verbatim>\<open>[4, 9]\<close>. The loop runs
  over the filtered array \<^verbatim>\<open>[19]\<close> and reads the capacity at index 0 of it: the
  fighter counts with capacity 4, the capacity of the empty slot, and not with the
  capacity 9 of the slot it is in (which would give power 30 and capacity 9).
\<close>

theorem capacity_at_filtered_position:
  "enemyFighterPower demo_master (Some [Some 8]) (Some [Some [- 1, 19]]) (Some [Some [4, 9]])
   = Inr (Tuple5 (JNum 20) 4 0 0 Map.empty)"
  by (simp add: loop_eval floor_sqrt_times_eq [of 4 10 20])

subsection \<open>The whole function\<close>

text \<open>
  In the model the function returns a result for every input. The arguments are arrays
  or absent, as documented, and a gear master record has its \<^verbatim>\<open>api_type\<close> array, which
  line 174 reads without a guard. The write of a gear entry under
  \<^verbatim>\<open>exceptions[shipId]\<close> always finds an object, because the statement before it
  replaces a missing or \<^verbatim>\<open>null\<close> entry of the ship.
\<close>

lemma returns_result:
  "\<exists>r. enemyFighterPower M enemyFleetShips enemyShipSlots enemySlotSizes = Inr r"
proof (cases enemyFleetShips)
  case None
  then show ?thesis by (simp add: enemyFighterPower_def)
next
  case (Some ships)
  obtain st where "ship_loop M ships enemyShipSlots enemySlotSizes 0 init_state = Inr st"
    using ship_loop_tot by blast
  with Some show ?thesis by (simp add: enemyFighterPower_def)
qed

text \<open>
  C8. Reordering the ships, with the override arrays reordered the same way, leaves the
  four totals of the result as they are. The fleet is in range, so that the sums of the
  model are the sums the code computes in either order.
\<close>

theorem ship_order_independent:
  assumes "mset p = mset [0..<length ships]" and "fleet_in_range M ships slots sizes"
  shows "\<exists>pw c n r ex ex'.
           enemyFighterPower M (Some ships) slots sizes = Inr (Tuple5 pw c n r ex) \<and>
           enemyFighterPower M (Some (permute_ships p ships)) (permute_overrides p slots)
               (permute_overrides p sizes) = Inr (Tuple5 pw c n r ex')"
proof -
  let ?ships' = "permute_ships p ships" and ?slots' = "permute_overrides p slots"
    and ?sizes' = "permute_overrides p sizes"
  have len: "length ?ships' = length p" by (simp add: permute_ships_def)
  have "map (ship_row ?ships' ?slots' ?sizes') [0..<length p] = map (ship_row ships slots sizes) p"
    by (rule nth_equalityI) (simp_all add: ship_row_permuted)
  moreover have "mset (map (ship_row ships slots sizes) p)
      = mset (map (ship_row ships slots sizes) [0..<length ships])"
    using assms(1) by (metis mset_map)
  ultimately have "fold (run_row M) (map (ship_row ?ships' ?slots' ?sizes') [0..<length ?ships'])
      = fold (run_row M) (map (ship_row ships slots sizes) [0..<length ships])"
    unfolding len by (intro fold_multiset_equiv run_row_commute) simp
  with enemyFighterPower_tot [of M ships slots sizes]
    enemyFighterPower_tot [of M ?ships' ?slots' ?sizes']
  show ?thesis by (metis prod.inject)
qed

theorem ship_order_independent_witness:
  "mset [1, 0] = mset [0..<length [Some 8, Some (1501 :: int)]] \<and>
   fleet_in_range demo_master [Some 8, Some 1501] None (Some [Some [16], None]) \<and>
   enemyFighterPower demo_master (Some [Some 8, Some 1501]) None (Some [Some [16], None])
     = Inr (Tuple5 (JNum 60) 20 0 9 Map.empty) \<and>
   (\<exists>ex'. enemyFighterPower demo_master (Some [Some 1501, Some 8]) None (Some [None, Some [16]])
     = Inr (Tuple5 (JNum 60) 20 0 9 ex'))"
proof -
  have p: "mset [1, 0] = mset [0..<length [Some 8, Some (1501::int)]]"
    by (simp add: upt_conv_Cons)
  have r: "enemyFighterPower demo_master (Some [Some 8, Some 1501]) None (Some [Some [16], None])
     = Inr (Tuple5 (JNum 60) 20 0 9 Map.empty)"
    by (simp add: loop_eval floor_sqrt_times_eq [of 16 10 40] floor_sqrt_times_eq [of 4 10 20])
  have t: "totals_in_range
      (enemyFighterPower demo_master (Some [Some 8, Some 1501]) None (Some [Some [16], None]))"
    unfolding r by (simp add: totals_in_range_def)
  have g: "list_all (\<lambda>i. ship_in_range demo_master None (Some [Some [16], None]) i
                     ([Some 8, Some 1501] ! i)) [0..<length [Some 8, Some (1501::int)]]"
    by (simp add: upt_conv_Cons ship_in_range_def gear_in_range_def resolve_ship_def
          ship_slots_def slot_capacity_def js_or_def or_empty_def js_nth_def entry_at_def
          aa_stat_def demo_master_def)
  have q: "fleet_in_range demo_master [Some 8, Some 1501] None (Some [Some [16], None])"
    unfolding fleet_in_range_def using t g by (rule conjI [rotated])
  from ship_order_independent [OF p q] r p q
  show ?thesis
    by (simp add: permute_ships_def permute_overrides_def entry_at_def)
qed

subsection \<open>Entries of the exception map that are lost\<close>



end
